theory Spec2Isabelle
  imports Main
begin

section \<open>Python strings\<close>

text \<open>
  A Python \<open>str\<close> is modelled as a \<open>string\<close> whose characters are the code points
  below 256. An optional value (\<open>str | None\<close>, a nullable column, a missing dictionary
  key) is a \<open>string option\<close>.
\<close>

definition truthy :: "string option \<Rightarrow> bool" where
  \<comment> \<open>Python's truth value of a \<open>str | None\<close>: None and the empty string are false.\<close>
  "truthy v = (case v of None \<Rightarrow> False | Some s \<Rightarrow> s \<noteq> [])"

definition py_or :: "string option \<Rightarrow> string option \<Rightarrow> string option" where
  \<comment> \<open>\<open>a or b\<close>: the first operand when it is true, the second otherwise.\<close>
  "py_or a b = (if truthy a then a else b)"

definition isspace :: "char \<Rightarrow> bool" where
  \<comment> \<open>\<open>str.isspace\<close> on one code point below 256.\<close>
  "isspace c =
     (let n = (of_char c :: nat)
      in (9 \<le> n \<and> n \<le> 13) \<or> (28 \<le> n \<and> n \<le> 32) \<or> n = 133 \<or> n = 160)"

definition lower_char :: "char \<Rightarrow> char" where
  \<comment> \<open>\<open>str.lower\<close> on one code point below 256: A-Z, and the Latin-1 capitals but the
      multiplication sign.\<close>
  "lower_char c =
     (let n = (of_char c :: nat)
      in if (65 \<le> n \<and> n \<le> 90) \<or> (192 \<le> n \<and> n \<le> 222 \<and> n \<noteq> 215)
         then char_of (n + 32) else c)"

definition lower :: "string \<Rightarrow> string" where
  "lower s = map lower_char s"

definition strip_chars :: "(char \<Rightarrow> bool) \<Rightarrow> string \<Rightarrow> string" where
  \<comment> \<open>Removes the characters satisfying the predicate from both ends.\<close>
  "strip_chars p s = rev (dropWhile p (rev (dropWhile p s)))"

definition strip :: "string \<Rightarrow> string" where
  \<comment> \<open>\<open>s.strip()\<close>\<close>
  "strip s = strip_chars isspace s"

definition strip_hyphen :: "string \<Rightarrow> string" where
  \<comment> \<open>\<open>s.strip("-")\<close>\<close>
  "strip_hyphen s = strip_chars (\<lambda>c. c = CHR ''-'') s"

definition is_lower_alnum :: "char \<Rightarrow> bool" where
  \<comment> \<open>The character class \<open>[a-z0-9]\<close>.\<close>
  "is_lower_alnum c =
     (let n = (of_char c :: nat) in (97 \<le> n \<and> n \<le> 122) \<or> (48 \<le> n \<and> n \<le> 57))"

definition is_ascii_alnum :: "char \<Rightarrow> bool" where
  \<comment> \<open>An ASCII letter or digit.\<close>
  "is_ascii_alnum c =
     (let n = (of_char c :: nat)
      in (97 \<le> n \<and> n \<le> 122) \<or> (65 \<le> n \<and> n \<le> 90) \<or> (48 \<le> n \<and> n \<le> 57))"

function sub_runs :: "(char \<Rightarrow> bool) \<Rightarrow> string \<Rightarrow> string" where
  \<comment> \<open>\<open>re.sub("[^...]+", "-", s)\<close>, the predicate being the character class that is kept:
      every maximal run of other characters becomes one hyphen.\<close>
  "sub_runs keep [] = []"
| "sub_runs keep (c # cs) =
     (if keep c then c # sub_runs keep cs
      else CHR ''-'' # sub_runs keep (dropWhile (\<lambda>d. \<not> keep d) cs))"
  by pat_completeness auto
termination
  by (relation "measure (\<lambda>(keep, s). length s)")
     (auto simp: less_Suc_eq_le length_dropWhile_le)

section \<open>Privacy and tag normalisation (main.py)\<close>

definition normalize_privacy :: "string option \<Rightarrow> string" where
  "normalize_privacy v =
     (if v = Some ''public'' \<or> v = Some ''private'' \<or> v = Some ''link_only'' then the v
      else if v = Some ''link-only'' then ''link_only''
      else ''link_only'')"

definition slugify :: "string \<Rightarrow> string" where
  "slugify tag = strip_hyphen (sub_runs is_lower_alnum (lower (strip tag)))"

section \<open>Errors\<close>

datatype http_exception = HTTPException nat string
  \<comment> \<open>\<open>HTTPException(status_code, detail)\<close>\<close>

datatype runtime_error = RuntimeError string

section \<open>Identity resolver (auth.py)\<close>

datatype auth_user = AuthUser (id_of: string) (role_of: string)

text \<open>
  The claims of a decoded token that the code reads. A key that is absent (or null) is
  \<open>None\<close>.
\<close>

record payload =
  jwt_sub :: "string option"
  jwt_role :: "string option"
  jwt_email :: "string option"
  jwt_user_metadata :: "(string \<rightharpoonup> string) option"

text \<open>
  The PyJWT library is not part of the repository: its three entry points are a
  parameter. \<open>ExpiredSignatureError\<close> is the one subclass of \<open>PyJWTError\<close> the code
  tells apart; \<open>PyJWTError\<close> below stands for every other one.
\<close>

datatype jwt_error = ExpiredSignatureError | PyJWTError

record jwt_lib =
  get_unverified_header :: "string \<Rightarrow> jwt_error + string option"
  get_signing_key_from_jwt :: "string \<Rightarrow> jwt_error + string"
  jwt_decode :: "string \<Rightarrow> string \<Rightarrow> string list \<Rightarrow> jwt_error + payload"

definition http_of_jwt_error :: "jwt_error \<Rightarrow> http_exception" where
  \<comment> \<open>The two \<open>except\<close> clauses of \<open>decode_token\<close>.\<close>
  "http_of_jwt_error e =
     (case e of
        ExpiredSignatureError \<Rightarrow> HTTPException 401 ''Token expired.''
      | PyJWTError \<Rightarrow> HTTPException 401 ''Invalid token.'')"

definition decode_token :: "jwt_lib \<Rightarrow> string \<Rightarrow> string \<Rightarrow> http_exception + payload" where
  \<comment> \<open>\<open>get_unverified_header\<close> gives the header's \<open>alg\<close>; \<open>jwt_decode lib token key algs\<close>
      is \<open>jwt.decode(token, key, algorithms=algs, ...)\<close>.\<close>
  "decode_token lib supabase_jwt_secret token =
     (case get_unverified_header lib token of
        Inl e \<Rightarrow> Inl (http_of_jwt_error e)
      | Inr alg \<Rightarrow>
          if truthy alg \<and> take 2 (the alg) = ''HS'' then
            (case jwt_decode lib token supabase_jwt_secret [the alg] of
               Inl e \<Rightarrow> Inl (http_of_jwt_error e)
             | Inr p \<Rightarrow> Inr p)
          else
            (case get_signing_key_from_jwt lib token of
               Inl e \<Rightarrow> Inl (http_of_jwt_error e)
             | Inr signing_key \<Rightarrow>
                 (case jwt_decode lib token signing_key
                         (if truthy alg then [the alg] else [''RS256'', ''ES256'']) of
                    Inl e \<Rightarrow> Inl (http_of_jwt_error e)
                  | Inr p \<Rightarrow> Inr p)))"

definition slugify_handle :: "string \<Rightarrow> string" where
  "slugify_handle v =
     (let h = strip_hyphen (sub_runs is_lower_alnum (lower (strip v)))
      in if h = [] then ''creator'' else h)"

definition email_local_part :: "string \<Rightarrow> string" where
  \<comment> \<open>\<open>email.split("@")[0]\<close>\<close>
  "email_local_part email = takeWhile (\<lambda>c. c \<noteq> CHR ''@'') email"

record profile =
  handle :: "string option"
  display_name :: "string option"
  avatar_url :: "string option"

type_synonym profiles = "string \<rightharpoonup> profile"

definition profile_values :: "string \<Rightarrow> payload \<Rightarrow> string \<times> string option \<times> string option" where
  \<comment> \<open>Lines 61-73 of \<open>ensure_profile\<close>: the handle, display name and avatar URL that
      are sent to the database.\<close>
  "profile_values user_id p =
     (let metadata = (case jwt_user_metadata p of None \<Rightarrow> Map.empty | Some m \<Rightarrow> m);
          email = py_or (jwt_email p) (metadata ''email'');
          display_name0 =
            py_or (py_or (py_or (metadata ''full_name'') (metadata ''name''))
                         (metadata ''preferred_username''))
                  (metadata ''user_name'');
          display_name1 =
            (if \<not> truthy display_name0 \<and> truthy email
             then Some (email_local_part (the email)) else display_name0);
          avatar = py_or (metadata ''avatar_url'') (metadata ''picture'');
          base_handle =
            slugify_handle
              (if truthy display_name1 then the display_name1
               else if truthy email then email_local_part (the email) else ''creator'')
      in (base_handle @ ''-'' @ take 6 user_id, display_name1, avatar))"

definition handle_source :: "payload \<Rightarrow> string" where
  \<comment> \<open>The string that line 72 of \<open>ensure_profile\<close> passes to \<open>_slugify_handle\<close>: the
      display name of lines 63-70 when it is not empty, else the local part of the
      e-mail address, else "creator".\<close>
  "handle_source p =
     (let metadata = (case jwt_user_metadata p of None \<Rightarrow> Map.empty | Some m \<Rightarrow> m);
          email = py_or (jwt_email p) (metadata ''email'');
          display_name0 =
            py_or (py_or (py_or (metadata ''full_name'') (metadata ''name''))
                         (metadata ''preferred_username''))
                  (metadata ''user_name'');
          display_name1 =
            (if \<not> truthy display_name0 \<and> truthy email
             then Some (email_local_part (the email)) else display_name0)
      in if truthy display_name1 then the display_name1
         else if truthy email then email_local_part (the email) else ''creator'')"

definition coalesce :: "'a option \<Rightarrow> 'a option \<Rightarrow> 'a option" where
  \<comment> \<open>SQL \<open>COALESCE(a, b)\<close>\<close>
  "coalesce a b = (case a of None \<Rightarrow> b | Some x \<Rightarrow> Some x)"

definition nullif :: "string option \<Rightarrow> string \<Rightarrow> string option" where
  \<comment> \<open>SQL \<open>NULLIF(a, s)\<close>\<close>
  "nullif a s = (if a = Some s then None else a)"

definition upsert_profile ::
  "profiles \<Rightarrow> string \<Rightarrow> string \<Rightarrow> string option \<Rightarrow> string option \<Rightarrow> profiles" where
  \<comment> \<open>\<open>INSERT INTO profiles ... ON CONFLICT (id) DO UPDATE SET ...\<close>; the table is keyed
      by \<open>id\<close>.\<close>
  "upsert_profile tbl user_id h dn av =
     (case tbl user_id of
        None \<Rightarrow> tbl(user_id \<mapsto> \<lparr>handle = Some h, display_name = dn, avatar_url = av\<rparr>)
      | Some old \<Rightarrow>
          tbl(user_id \<mapsto>
            \<lparr>handle = coalesce (handle old) (Some h),
             display_name = coalesce (nullif (display_name old) []) dn,
             avatar_url = coalesce (nullif (avatar_url old) []) av\<rparr>))"

definition ensure_profile :: "profiles \<Rightarrow> string \<Rightarrow> payload \<Rightarrow> profiles" where
  "ensure_profile tbl user_id p =
     (case profile_values user_id p of (h, dn, av) \<Rightarrow> upsert_profile tbl user_id h dn av)"

definition get_current_user ::
  "jwt_lib \<Rightarrow> string \<Rightarrow> string option \<Rightarrow> profiles \<Rightarrow> (http_exception + auth_user) \<times> profiles" where
  "get_current_user lib secret credentials tbl =
     (case credentials of
        None \<Rightarrow> (Inl (HTTPException 401 ''Missing bearer token.''), tbl)
      | Some token \<Rightarrow>
          (case decode_token lib secret token of
             Inl e \<Rightarrow> (Inl e, tbl)
           | Inr p \<Rightarrow>
               (let user_id = jwt_sub p;
                    role = (case jwt_role p of None \<Rightarrow> ''authenticated'' | Some r \<Rightarrow> r)
                in if \<not> truthy user_id then (Inl (HTTPException 401 ''Invalid token.''), tbl)
                   else (Inr (AuthUser (the user_id) role),
                         ensure_profile tbl (the user_id) p))))"

definition get_optional_user ::
  "jwt_lib \<Rightarrow> string \<Rightarrow> string option \<Rightarrow> profiles
     \<Rightarrow> (http_exception + auth_user option) \<times> profiles" where
  "get_optional_user lib secret credentials tbl =
     (case credentials of
        None \<Rightarrow> (Inr None, tbl)
      | Some token \<Rightarrow>
          (case decode_token lib secret token of
             Inl e \<Rightarrow> (Inl e, tbl)
           | Inr p \<Rightarrow>
               (let user_id = jwt_sub p;
                    role = (case jwt_role p of None \<Rightarrow> ''authenticated'' | Some r \<Rightarrow> r)
                in if \<not> truthy user_id then (Inr None, tbl)
                   else (Inr (Some (AuthUser (the user_id) role)),
                         ensure_profile tbl (the user_id) p))))"

section \<open>Session-context binder (db.py)\<close>

text \<open>
  \<open>get_db\<close> sends three statements to a pooled PostgreSQL connection before it yields
  it. The database is not part of the repository; what it does with a setting is
  written out here as PostgreSQL documents it. A connection has its session settings
  (they live as long as the connection) and, while a transaction block is open, the
  settings local to that transaction. \<open>SET LOCAL\<close> and \<open>set_config(name, value, true)\<close>
  write the transaction's settings and do not outlast the transaction: with no
  transaction block open the statement is its own transaction and nothing is left of
  the setting when it ends. \<open>set_config(name, value, false)\<close> writes the session
  settings. Every other statement (\<open>Query\<close>) leaves the settings alone.
\<close>

datatype statement =
    SetLocal string string
  | SetConfig string string bool
  | Query string

record connection =
  session_settings :: "string \<rightharpoonup> string"
  transaction_settings :: "(string \<rightharpoonup> string) option"

definition set_transaction_local :: "connection \<Rightarrow> string \<Rightarrow> string \<Rightarrow> connection" where
  "set_transaction_local conn k v =
     (case transaction_settings conn of
        None \<Rightarrow> conn
      | Some loc \<Rightarrow> conn\<lparr>transaction_settings := Some (loc(k \<mapsto> v))\<rparr>)"

definition execute :: "connection \<Rightarrow> statement \<Rightarrow> connection" where
  \<comment> \<open>\<open>conn.execute(statement)\<close>\<close>
  "execute conn st =
     (case st of
        SetLocal k v \<Rightarrow> set_transaction_local conn k v
      | SetConfig k v is_local \<Rightarrow>
          if is_local then set_transaction_local conn k v
          else conn\<lparr>session_settings := (session_settings conn)(k \<mapsto> v)\<rparr>
      | Query q \<Rightarrow> conn)"

definition current_setting :: "connection \<Rightarrow> string \<Rightarrow> string option" where
  \<comment> \<open>What a statement run on the connection reads for a setting.\<close>
  "current_setting conn k =
     (case transaction_settings conn of
        None \<Rightarrow> session_settings conn k
      | Some loc \<Rightarrow> (case loc k of Some v \<Rightarrow> Some v | None \<Rightarrow> session_settings conn k))"

definition release :: "connection \<Rightarrow> connection" where
  \<comment> \<open>\<open>pool.release(conn)\<close>: a transaction left open ends; the session stays.\<close>
  "release conn = conn\<lparr>transaction_settings := None\<rparr>"





definition get_service_db :: "connection option \<Rightarrow> runtime_error + connection" where
  "get_service_db pool =
     (case pool of
        None \<Rightarrow> Inl (RuntimeError ''Database pool is not initialized.'')
      | Some conn \<Rightarrow> Inr (execute conn (SetLocal ''row_security'' ''off'')))"


section \<open>Tables\<close>

text \<open>
  The tables the handlers below read and write, with the columns they name. Row-level
  security is a policy of the database, not of this code: a table here is the table as
  the database presents it to the handler's connection, and the handlers are those of a
  running application (the pool is initialised).
\<close>

record playlist =
  pl_id :: string
  pl_owner_id :: string
  pl_name :: string
  pl_description :: "string option"
  pl_privacy :: string
  share_token_hash :: "string option"
  pl_created_at :: "string option"

record playlist_sound =
  ps_playlist_id :: string
  ps_sound_id :: string
  position :: "int option"

record sound =
  s_id :: string
  s_owner_id :: string
  s_name :: string
  s_description :: "string option"
  storage_path :: string
  size_bytes :: nat
  s_format :: "string option"
  s_privacy :: string

record tag =
  tag_id :: string
  slug :: string
  display :: string

record db =
  profiles :: profiles
  sounds :: "sound list"
  tags :: "tag list"
  sound_tags :: "(string \<times> string) list"
  playlists :: "playlist list"
  playlist_sounds :: "playlist_sound list"

section \<open>Playlists and share tokens (main.py)\<close>




definition rotate_share_token ::
  "(string \<Rightarrow> string) \<Rightarrow> string \<Rightarrow> string \<Rightarrow> db \<Rightarrow> (http_exception + string) \<times> db" where
  \<comment> \<open>\<open>UPDATE playlists SET share_token_hash = $1 WHERE id = $2 RETURNING id\<close>\<close>
  "rotate_share_token sha256_hexdigest share_token playlist_id d =
     (let token_hash = sha256_hexdigest share_token;
          row = find (\<lambda>r. pl_id r = playlist_id) (playlists d);
          d' = d\<lparr>playlists :=
                   map (\<lambda>r. if pl_id r = playlist_id
                             then r\<lparr>share_token_hash := Some token_hash\<rparr> else r)
                       (playlists d)\<rparr>
      in if row = None then (Inl (HTTPException 404 ''Playlist not found.''), d')
         else (Inr share_token, d'))"

definition get_playlist_share ::
  "(string \<Rightarrow> string) \<Rightarrow> string \<Rightarrow> db \<Rightarrow> http_exception + playlist" where
  \<comment> \<open>Lines 339-351: the lookup that decides between the response and the 404. The value
      returned is the row found, from which the handler goes on to build its response.\<close>
  "get_playlist_share sha256_hexdigest token d =
     (let token_hash = sha256_hexdigest token
      in case find (\<lambda>r. share_token_hash r = Some token_hash \<and> pl_privacy r = ''link_only'')
                   (playlists d) of
           None \<Rightarrow> Inl (HTTPException 404 ''Share link not found.'')
         | Some found \<Rightarrow> Inr found)"





section \<open>Reordering a playlist (main.py)\<close>

definition update_position :: "int \<Rightarrow> string \<Rightarrow> string \<Rightarrow> playlist_sound list \<Rightarrow> playlist_sound list" where
  \<comment> \<open>\<open>UPDATE playlist_sounds SET position = $1 WHERE playlist_id = $2 AND sound_id = $3\<close>\<close>
  "update_position index playlist_id sound_id tbl =
     map (\<lambda>r. if ps_playlist_id r = playlist_id \<and> ps_sound_id r = sound_id
               then r\<lparr>position := Some index\<rparr> else r) tbl"

definition reorder_playlist_sounds :: "string \<Rightarrow> string list \<Rightarrow> db \<Rightarrow> db" where
  \<comment> \<open>\<open>for index, sound_id in enumerate(payload.sound_ids, start=1): conn.execute(...)\<close>\<close>
  "reorder_playlist_sounds playlist_id sound_ids d =
     d\<lparr>playlist_sounds :=
         foldl (\<lambda>tbl (index, sound_id). update_position (int index) playlist_id sound_id tbl)
               (playlist_sounds d) (enumerate 1 sound_ids)\<rparr>"

section \<open>Object storage (storage.py)\<close>

definition is_safe_char :: "char \<Rightarrow> bool" where
  \<comment> \<open>The character class \<open>[a-zA-Z0-9._-]\<close>.\<close>
  "is_safe_char c =
     (let n = (of_char c :: nat)
      in (97 \<le> n \<and> n \<le> 122) \<or> (65 \<le> n \<and> n \<le> 90) \<or> (48 \<le> n \<and> n \<le> 57)
         \<or> c = CHR ''.'' \<or> c = CHR ''_'' \<or> c = CHR ''-'')"

definition safe_name :: "string \<Rightarrow> string" where
  "safe_name v =
     (let cleaned = map (\<lambda>c. if is_safe_char c then c else CHR ''-'') (strip v)
      in if cleaned = [] then ''sound'' else cleaned)"

text \<open>
  The storage service is not part of the repository. Its upload is a parameter: given
  the state of the bucket, a path, the bytes and a content type, it either raises a
  \<open>StorageException\<close> or not, and leaves the bucket in some state. An exception carries
  its \<open>args\<close>; what the code looks at is whether the first one is a dictionary.
\<close>

datatype exception_arg = DictArg "string \<rightharpoonup> string" | OtherArg

datatype storage_exception = StorageException "exception_arg list"

type_synonym 'st storage_upload =
  "'st \<Rightarrow> string \<Rightarrow> string \<Rightarrow> string \<Rightarrow> storage_exception option \<times> 'st"

definition upload_bytes ::
  "'st storage_upload \<Rightarrow> 'st \<Rightarrow> string \<Rightarrow> string \<Rightarrow> string option
     \<Rightarrow> storage_exception option \<times> 'st" where
  "upload_bytes client st path data content_type =
     client st path data
       (if truthy content_type then the content_type else ''application/octet-stream'')"

section \<open>Tags (main.py)\<close>

fun split_on :: "char \<Rightarrow> string \<Rightarrow> string list" where
  \<comment> \<open>\<open>s.split(sep)\<close> for a separator of one character\<close>
  "split_on sep [] = [[]]"
| "split_on sep (c # cs) =
     (if c = sep then [] # split_on sep cs
      else (case split_on sep cs of [] \<Rightarrow> [[c]] | w # ws \<Rightarrow> (c # w) # ws))"

definition normalize_tags :: "string option \<Rightarrow> string list" where
  "normalize_tags raw =
     (if \<not> truthy raw then []
      else filter (\<lambda>t. t \<noteq> []) (map strip (split_on (CHR '','') (the raw))))"

definition upsert_tag :: "(tag list \<Rightarrow> string) \<Rightarrow> tag list \<Rightarrow> string \<Rightarrow> string \<Rightarrow> string \<times> tag list" where
  \<comment> \<open>\<open>INSERT INTO tags (slug, display) VALUES ($1, $2) ON CONFLICT (slug) DO UPDATE SET
      display = EXCLUDED.display RETURNING id\<close>. The id of a new row is the column's
      default, which the database computes: \<open>new_tag_id\<close>.\<close>
  "upsert_tag new_tag_id tbl s d =
     (case find (\<lambda>t. slug t = s) tbl of
        Some old \<Rightarrow> (tag_id old, map (\<lambda>t. if slug t = s then t\<lparr>display := d\<rparr> else t) tbl)
      | None \<Rightarrow> (new_tag_id tbl, tbl @ [\<lparr>tag_id = new_tag_id tbl, slug = s, display = d\<rparr>]))"

fun ensure_tags_loop ::
  "(tag list \<Rightarrow> string) \<Rightarrow> string list \<Rightarrow> tag list \<Rightarrow> string list \<Rightarrow> string list \<times> tag list" where
  \<comment> \<open>The loop of \<open>ensure_tags\<close>, from a given \<open>tag_ids\<close> and table.\<close>
  "ensure_tags_loop new_tag_id tag_ids tbl [] = (tag_ids, tbl)"
| "ensure_tags_loop new_tag_id tag_ids tbl (t # rest) =
     (if slugify t = [] then ensure_tags_loop new_tag_id tag_ids tbl rest
      else (case upsert_tag new_tag_id tbl (slugify t) t of
              (i, tbl') \<Rightarrow> ensure_tags_loop new_tag_id (tag_ids @ [i]) tbl' rest))"

definition ensure_tags :: "(tag list \<Rightarrow> string) \<Rightarrow> tag list \<Rightarrow> string list \<Rightarrow> string list \<times> tag list" where
  "ensure_tags new_tag_id tbl tag_list = ensure_tags_loop new_tag_id [] tbl tag_list"

definition insert_sound_tag :: "string \<Rightarrow> (string \<times> string) list \<Rightarrow> string \<Rightarrow> (string \<times> string) list" where
  \<comment> \<open>\<open>INSERT INTO sound_tags (sound_id, tag_id) VALUES ($1, $2) ON CONFLICT DO NOTHING\<close>\<close>
  "insert_sound_tag sound_id tbl i =
     (if (sound_id, i) \<in> set tbl then tbl else tbl @ [(sound_id, i)])"

definition attach_tags :: "(tag list \<Rightarrow> string) \<Rightarrow> db \<Rightarrow> string \<Rightarrow> string list \<Rightarrow> string list \<times> db" where
  "attach_tags new_tag_id d sound_id tag_list =
     (case ensure_tags new_tag_id (tags d) tag_list of
        (tag_ids, tbl) \<Rightarrow>
          if tag_ids = [] then ([], d\<lparr>tags := tbl\<rparr>)
          else (tag_list,
                d\<lparr>tags := tbl,
                  sound_tags := foldl (insert_sound_tag sound_id) (sound_tags d) tag_ids\<rparr>))"

section \<open>Sounds (main.py)\<close>

record upload_file =
  filename :: "string option"
  content_type :: "string option"
  file_data :: string

record sound_out =
  so_id :: string
  so_name :: string
  so_url :: string
  so_tags :: "string list"
  so_privacy :: string
  so_duration_seconds :: "int option"
  so_created_at :: "string option"
  so_owner_id :: string
  so_creator :: "(string \<times> profile) option"

definition upload_failure_detail :: "exception_arg list \<Rightarrow> string" where
  \<comment> \<open>Lines 637-639: the detail of the 502.\<close>
  "upload_failure_detail args =
     (case args of
        DictArg dict # rest \<Rightarrow>
          (if truthy (dict ''message'') then the (dict ''message'')
           else ''Storage upload failed.'')
      | _ \<Rightarrow> ''Storage upload failed.'')"

definition sound_display_name :: "string \<Rightarrow> upload_file \<Rightarrow> string option" where
  \<comment> \<open>Line 626\<close>
  "sound_display_name name file = (if strip name \<noteq> [] then Some (strip name) else filename file)"

definition sound_storage_path :: "auth_user \<Rightarrow> string \<Rightarrow> upload_file \<Rightarrow> string \<Rightarrow> string" where
  \<comment> \<open>Lines 631-632\<close>
  "sound_storage_path current_user sound_id file shown_name =
     id_of current_user @ ''/'' @ sound_id @ ''/''
       @ safe_name (if truthy (filename file) then the (filename file) else shown_name)"

definition create_sound ::
  "'st storage_upload \<Rightarrow> (string \<Rightarrow> string) \<Rightarrow> (tag list \<Rightarrow> string) \<Rightarrow> string
     \<Rightarrow> upload_file \<Rightarrow> string \<Rightarrow> string \<Rightarrow> string \<Rightarrow> string \<Rightarrow> auth_user
     \<Rightarrow> 'st \<Rightarrow> db \<Rightarrow> (http_exception + sound_out) \<times> 'st \<times> db" where
  \<comment> \<open>\<open>client\<close> is the storage upload, \<open>create_signed_url\<close> the signer, \<open>sound_id\<close> the draw
      of \<open>uuid.uuid4()\<close>. The result is the response or the exception, the state of the
      bucket and the database.\<close>
  "create_sound client create_signed_url new_tag_id sound_id file name description raw_tags
       privacy current_user st d =
     (let display_name = sound_display_name name file
      in if \<not> truthy display_name
         then (Inl (HTTPException 400 ''Sound name required.''), st, d)
         else
           (let path = sound_storage_path current_user sound_id file (the display_name)
            in case upload_bytes client st path (file_data file) (content_type file) of
                 (Some (StorageException args), st') \<Rightarrow>
                   (Inl (HTTPException 502 (upload_failure_detail args)), st', d)
               | (None, st') \<Rightarrow>
                   (let privacy_value = normalize_privacy (Some privacy);
                        tag_list = normalize_tags (Some raw_tags);
                        d1 = d\<lparr>sounds := sounds d @
                               [\<lparr>s_id = sound_id, s_owner_id = id_of current_user,
                                 s_name = the display_name,
                                 s_description =
                                   (if description = [] then None else Some description),
                                 storage_path = path,
                                 size_bytes = length (file_data file),
                                 s_format = content_type file,
                                 s_privacy = privacy_value\<rparr>]\<rparr>;
                        d2 = snd (attach_tags new_tag_id d1 sound_id tag_list)
                    in (Inr \<lparr>so_id = sound_id, so_name = the display_name,
                             so_url = create_signed_url path, so_tags = tag_list,
                             so_privacy = privacy_value, so_duration_seconds = None,
                             so_created_at = None, so_owner_id = id_of current_user,
                             so_creator =
                               map_option (\<lambda>p. (id_of current_user, p))
                                 (profiles d2 (id_of current_user))\<rparr>,
                        st', d2))))"

record sound_update =
  su_name :: "string option"
  su_tags :: "string option"
  su_privacy :: "string option"

definition update_sound ::
  "(tag list \<Rightarrow> string) \<Rightarrow> string \<Rightarrow> sound_update \<Rightarrow> db \<Rightarrow> (http_exception + unit) \<times> db" where
  "update_sound new_tag_id sound_id payload d =
     (let privacy_value = map_option (\<lambda>v. normalize_privacy (Some v)) (su_privacy payload);
          tags_list = map_option (\<lambda>raw. normalize_tags (Some raw)) (su_tags payload)
      in if find (\<lambda>s. s_id s = sound_id) (sounds d) = None
         then (Inl (HTTPException 404 ''Sound not found.''), d)
         else
           (let d1 = d\<lparr>sounds :=
                        map (\<lambda>s. if s_id s = sound_id
                                  then s\<lparr>s_name := the (coalesce (su_name payload) (Some (s_name s))),
                                         s_privacy := the (coalesce privacy_value (Some (s_privacy s)))\<rparr>
                                  else s)
                            (sounds d)\<rparr>
            in case tags_list of
                 None \<Rightarrow> (Inr (), d1)
               | Some tag_list \<Rightarrow>
                   (Inr (),
                    snd (attach_tags new_tag_id
                           (d1\<lparr>sound_tags := filter (\<lambda>(sid, tid). sid \<noteq> sound_id) (sound_tags d1)\<rparr>)
                           sound_id tag_list))))"

section \<open>Privacy normalisation\<close>

text \<open>
  Claim C5. \<open>normalize_privacy\<close> returns each of "public", "private" and "link_only"
  unchanged, and returns "link_only" for "link-only", for a missing value and for every
  other input.
\<close>

theorem normalize_privacy_cases:
  "normalize_privacy (Some ''public'') = ''public''
   \<and> normalize_privacy (Some ''private'') = ''private''
   \<and> normalize_privacy (Some ''link_only'') = ''link_only''
   \<and> normalize_privacy (Some ''link-only'') = ''link_only''
   \<and> (v \<notin> {Some ''public'', Some ''private'', Some ''link_only''}
        \<longrightarrow> normalize_privacy v = ''link_only'')"
  by (simp add: normalize_privacy_def)

theorem normalize_privacy_cases_witness:
  "Some ''Public '' \<notin> {Some ''public'', Some ''private'', Some ''link_only''}
   \<and> normalize_privacy (Some ''Public '') = ''link_only''
   \<and> normalize_privacy None = ''link_only''"
  using normalize_privacy_cases [of "Some ''Public ''"] normalize_privacy_cases [of None]
  by simp

section \<open>Optional and required authentication\<close>

lemma decode_token_errors:
  "decode_token lib secret token = Inl e \<Longrightarrow>
     e = HTTPException 401 ''Token expired.'' \<or> e = HTTPException 401 ''Invalid token.''"
  by (auto simp: decode_token_def http_of_jwt_error_def
           split: sum.splits if_splits jwt_error.splits)

text \<open>
  Claim C3, as the code has it. On a route with optional authentication a request
  without credentials is anonymous, and so is one whose verified token carries no
  subject. A presented credential that fails verification is not: \<open>get_optional_user\<close>
  lets the 401 of \<open>decode_token\<close> ("Token expired." or "Invalid token.") through,
  exactly as \<open>get_current_user\<close> does, and no profile is touched.
\<close>

theorem optional_auth_outcomes:
  "fst (get_optional_user lib secret None tbl) = Inr None
   \<and> (decode_token lib secret token = Inl e \<longrightarrow>
        get_optional_user lib secret (Some token) tbl = (Inl e, tbl)
        \<and> get_current_user lib secret (Some token) tbl = (Inl e, tbl)
        \<and> (e = HTTPException 401 ''Token expired.'' \<or> e = HTTPException 401 ''Invalid token.''))
   \<and> (decode_token lib secret token = Inr p \<and> \<not> truthy (jwt_sub p) \<longrightarrow>
        get_optional_user lib secret (Some token) tbl = (Inr None, tbl)
        \<and> get_current_user lib secret (Some token) tbl
            = (Inl (HTTPException 401 ''Invalid token.''), tbl))"
  using decode_token_errors [of lib secret token e]
  by (simp add: get_optional_user_def get_current_user_def)

theorem optional_auth_outcomes_witness:
  "decode_token
     \<lparr>get_unverified_header = (\<lambda>t. Inl PyJWTError),
      get_signing_key_from_jwt = (\<lambda>t. Inl PyJWTError),
      jwt_decode = (\<lambda>t k algs. Inl PyJWTError)\<rparr> ''s'' ''garbage''
     = Inl (HTTPException 401 ''Invalid token.'')
   \<and> get_optional_user
     \<lparr>get_unverified_header = (\<lambda>t. Inl PyJWTError),
      get_signing_key_from_jwt = (\<lambda>t. Inl PyJWTError),
      jwt_decode = (\<lambda>t k algs. Inl PyJWTError)\<rparr> ''s'' (Some ''garbage'') Map.empty
     = (Inl (HTTPException 401 ''Invalid token.''), Map.empty)
   \<and> decode_token
     \<lparr>get_unverified_header = (\<lambda>t. Inr (Some ''HS256'')),
      get_signing_key_from_jwt = (\<lambda>t. Inl PyJWTError),
      jwt_decode = (\<lambda>t k algs. Inr \<lparr>jwt_sub = None, jwt_role = Some ''anon'',
                                      jwt_email = None, jwt_user_metadata = None\<rparr>)\<rparr>
     ''s'' ''anon.jwt''
     = Inr \<lparr>jwt_sub = None, jwt_role = Some ''anon'', jwt_email = None,
            jwt_user_metadata = None\<rparr>
   \<and> get_optional_user
     \<lparr>get_unverified_header = (\<lambda>t. Inr (Some ''HS256'')),
      get_signing_key_from_jwt = (\<lambda>t. Inl PyJWTError),
      jwt_decode = (\<lambda>t k algs. Inr \<lparr>jwt_sub = None, jwt_role = Some ''anon'',
                                      jwt_email = None, jwt_user_metadata = None\<rparr>)\<rparr>
     ''s'' (Some ''anon.jwt'') Map.empty
     = (Inr None, Map.empty)"
proof -
  let ?bad = "\<lparr>get_unverified_header = (\<lambda>t. Inl PyJWTError),
      get_signing_key_from_jwt = (\<lambda>t. Inl PyJWTError),
      jwt_decode = (\<lambda>t k algs. Inl PyJWTError)\<rparr>"
  let ?p = "\<lparr>jwt_sub = None, jwt_role = Some ''anon'', jwt_email = None,
            jwt_user_metadata = None\<rparr>"
  let ?anon = "\<lparr>get_unverified_header = (\<lambda>t. Inr (Some ''HS256'')),
      get_signing_key_from_jwt = (\<lambda>t. Inl PyJWTError),
      jwt_decode = (\<lambda>t k algs. Inr ?p)\<rparr>"
  have d: "decode_token ?bad ''s'' ''garbage'' = Inl (HTTPException 401 ''Invalid token.'')"
    by (simp add: decode_token_def http_of_jwt_error_def)
  have a: "decode_token ?anon ''s'' ''anon.jwt'' = Inr ?p"
    by (simp add: decode_token_def truthy_def)
  have s: "\<not> truthy (jwt_sub ?p)"
    by (simp add: truthy_def)
  from optional_auth_outcomes [of ?bad "''s''" Map.empty "''garbage''"
         "HTTPException 401 ''Invalid token.''"]
       optional_auth_outcomes [of ?anon "''s''" Map.empty "''anon.jwt''" _ ?p] d a s
  show ?thesis by simp
qed

text \<open>
  Claim C3 as the specification states it fails: on an optional route, a token whose
  signature has expired is answered with the 401 "Token expired.", not treated as an
  anonymous request.
\<close>

theorem optional_auth_counterexample:
  "get_optional_user
     \<lparr>get_unverified_header = (\<lambda>t. Inr (Some ''HS256'')),
      get_signing_key_from_jwt = (\<lambda>t. Inl PyJWTError),
      jwt_decode = (\<lambda>t k algs. Inl ExpiredSignatureError)\<rparr>
     ''secret'' (Some ''stale.jwt.token'') Map.empty
   = (Inl (HTTPException 401 ''Token expired.''), Map.empty)"
  by (simp add: get_optional_user_def decode_token_def truthy_def http_of_jwt_error_def)

section \<open>The profile upsert\<close>

lemma ensure_profile_existing:
  "tbl user_id = Some old \<Longrightarrow>
   ensure_profile tbl user_id p user_id =
     Some \<lparr>handle = coalesce (handle old) (Some (fst (profile_values user_id p))),
           display_name =
             coalesce (nullif (display_name old) []) (fst (snd (profile_values user_id p))),
           avatar_url =
             coalesce (nullif (avatar_url old) []) (snd (snd (profile_values user_id p)))\<rparr>"
  by (simp add: ensure_profile_def upsert_profile_def split: prod.splits)

lemma ensure_profile_others:
  "other \<noteq> user_id \<Longrightarrow> ensure_profile tbl user_id p other = tbl other"
  by (simp add: ensure_profile_def upsert_profile_def split: prod.splits option.splits)

text \<open>
  Claim C7. When the identity already has a profile, \<open>ensure_profile\<close> leaves each of
  \<open>display_name\<close>, \<open>handle\<close> and \<open>avatar_url\<close> as it was whenever that field was
  non-empty, whatever the claims of the new token say; and it changes no other profile.
\<close>

theorem ensure_profile_fill_only:
  assumes "tbl user_id = Some old"
  shows "(truthy (display_name old) \<longrightarrow>
            map_option display_name (ensure_profile tbl user_id p user_id)
              = Some (display_name old))
       \<and> (truthy (handle old) \<longrightarrow>
            map_option handle (ensure_profile tbl user_id p user_id) = Some (handle old))
       \<and> (truthy (avatar_url old) \<longrightarrow>
            map_option avatar_url (ensure_profile tbl user_id p user_id)
              = Some (avatar_url old))
       \<and> (\<forall>other. other \<noteq> user_id \<longrightarrow> ensure_profile tbl user_id p other = tbl other)"
  using ensure_profile_existing [of tbl user_id old p] assms
        ensure_profile_others [of _ user_id tbl p]
  by (auto simp: truthy_def coalesce_def nullif_def split: option.splits)

theorem ensure_profile_fill_only_witness:
  "map_option display_name
     (ensure_profile
        [''3f2a9c1e'' \<mapsto> \<lparr>handle = Some ''ann-3f2a9c'', display_name = Some ''Ann'',
                            avatar_url = Some ''http://img/ann.png''\<rparr>]
        ''3f2a9c1e''
        \<lparr>jwt_sub = Some ''3f2a9c1e'', jwt_role = None, jwt_email = Some ''bob@x.org'',
         jwt_user_metadata =
           Some [''full_name'' \<mapsto> ''Bob'', ''picture'' \<mapsto> ''http://img/bob.png'']\<rparr>
        ''3f2a9c1e'')
   = Some (Some ''Ann'')
   \<and> map_option handle
     (ensure_profile
        [''3f2a9c1e'' \<mapsto> \<lparr>handle = Some ''ann-3f2a9c'', display_name = Some ''Ann'',
                            avatar_url = Some ''http://img/ann.png''\<rparr>]
        ''3f2a9c1e''
        \<lparr>jwt_sub = Some ''3f2a9c1e'', jwt_role = None, jwt_email = Some ''bob@x.org'',
         jwt_user_metadata =
           Some [''full_name'' \<mapsto> ''Bob'', ''picture'' \<mapsto> ''http://img/bob.png'']\<rparr>
        ''3f2a9c1e'')
   = Some (Some ''ann-3f2a9c'')
   \<and> map_option avatar_url
     (ensure_profile
        [''3f2a9c1e'' \<mapsto> \<lparr>handle = Some ''ann-3f2a9c'', display_name = Some ''Ann'',
                            avatar_url = Some ''http://img/ann.png''\<rparr>]
        ''3f2a9c1e''
        \<lparr>jwt_sub = Some ''3f2a9c1e'', jwt_role = None, jwt_email = Some ''bob@x.org'',
         jwt_user_metadata =
           Some [''full_name'' \<mapsto> ''Bob'', ''picture'' \<mapsto> ''http://img/bob.png'']\<rparr>
        ''3f2a9c1e'')
   = Some (Some ''http://img/ann.png'')"
proof -
  let ?old = "\<lparr>handle = Some ''ann-3f2a9c'', display_name = Some ''Ann'',
               avatar_url = Some ''http://img/ann.png''\<rparr>"
  let ?tbl = "[''3f2a9c1e'' \<mapsto> ?old]"
  have h: "?tbl ''3f2a9c1e'' = Some ?old" by simp
  have t: "truthy (display_name ?old)" "truthy (handle ?old)" "truthy (avatar_url ?old)"
    by (simp_all add: truthy_def)
  from ensure_profile_fill_only [of ?tbl "''3f2a9c1e''" ?old] h t show ?thesis by simp
qed

section \<open>Generated handles\<close>

lemma slugify_handle_nonempty: "slugify_handle v \<noteq> []"
  by (simp add: slugify_handle_def Let_def)

lemma profile_values_handle_source:
  "fst (profile_values user_id p) = slugify_handle (handle_source p) @ ''-'' @ take 6 user_id"
  by (simp add: profile_values_def handle_source_def Let_def)

text \<open>
  Claim C9, as the code has it. The generated handle is the slug of the name the claims
  give (\<open>slugify_handle\<close> of \<open>handle_source\<close>, never empty), a hyphen, and the first six
  characters of the subject id; so it is never empty. For subject ids of at least six
  characters, two identities get the same handle exactly when their names slugify alike
  and their ids agree on the first six characters: ids that differ there always give
  different handles, and ids that agree there do not tell two identities apart.
\<close>

theorem generated_handle_suffix:
  "fst (profile_values u1 p1) = slugify_handle (handle_source p1) @ ''-'' @ take 6 u1
   \<and> slugify_handle (handle_source p1) \<noteq> []
   \<and> fst (profile_values u1 p1) \<noteq> []
   \<and> (6 \<le> length u1 \<and> 6 \<le> length u2 \<longrightarrow>
        (fst (profile_values u1 p1) = fst (profile_values u2 p2))
          = (slugify_handle (handle_source p1) = slugify_handle (handle_source p2)
             \<and> take 6 u1 = take 6 u2))
   \<and> (6 \<le> length u1 \<and> 6 \<le> length u2 \<and> take 6 u1 \<noteq> take 6 u2
        \<longrightarrow> fst (profile_values u1 p1) \<noteq> fst (profile_values u2 p2))
   \<and> (slugify_handle (handle_source p1) = slugify_handle (handle_source p2)
        \<and> take 6 u1 = take 6 u2
        \<longrightarrow> fst (profile_values u1 p1) = fst (profile_values u2 p2))"
proof -
  let ?b1 = "slugify_handle (handle_source p1)"
  let ?b2 = "slugify_handle (handle_source p2)"
  have h1: "fst (profile_values u1 p1) = ?b1 @ ''-'' @ take 6 u1"
    by (rule profile_values_handle_source)
  have h2: "fst (profile_values u2 p2) = ?b2 @ ''-'' @ take 6 u2"
    by (rule profile_values_handle_source)
  have ne: "?b1 \<noteq> []" by (rule slugify_handle_nonempty)
  have iff: "(fst (profile_values u1 p1) = fst (profile_values u2 p2))
          = (?b1 = ?b2 \<and> take 6 u1 = take 6 u2)"
    if "6 \<le> length u1" "6 \<le> length u2"
  proof -
    have len: "length (take 6 u1) = length (take 6 u2)" using that by simp
    have "(fst (profile_values u1 p1) = fst (profile_values u2 p2))
            = ((?b1 @ ''-'') @ take 6 u1 = (?b2 @ ''-'') @ take 6 u2)"
      by (simp add: h1 h2)
    also have "\<dots> = (?b1 @ ''-'' = ?b2 @ ''-'' \<and> take 6 u1 = take 6 u2)"
      by (rule append_eq_append_conv) (use that in simp)
    also have "\<dots> = (?b1 = ?b2 \<and> take 6 u1 = take 6 u2)"
      by simp
    finally show ?thesis .
  qed
  have same: "fst (profile_values u1 p1) = fst (profile_values u2 p2)"
    if "?b1 = ?b2" "take 6 u1 = take 6 u2"
    using that by (simp add: h1 h2)
  show ?thesis using h1 ne iff same by auto
qed

theorem generated_handle_suffix_witness:
  "fst (profile_values ''3f2a9c1e-7b41'' 
          \<lparr>jwt_sub = Some ''3f2a9c1e-7b41'', jwt_role = None, jwt_email = Some ''al@one.example'',
           jwt_user_metadata = Some [''full_name'' \<mapsto> ''Ann Lee'']\<rparr>) = ''ann-lee-3f2a9c''
   \<and> fst (profile_values ''3f2a9c88-0e55'' 
          \<lparr>jwt_sub = Some ''3f2a9c88-0e55'', jwt_role = None, jwt_email = Some ''ann.lee@two.example'',
           jwt_user_metadata = None\<rparr>) = ''ann-lee-3f2a9c''
   \<and> fst (profile_values ''77aa9c1e-7b41'' 
          \<lparr>jwt_sub = Some ''77aa9c1e-7b41'', jwt_role = None, jwt_email = Some ''al@one.example'',
           jwt_user_metadata = Some [''full_name'' \<mapsto> ''Ann Lee'']\<rparr>)
       \<noteq> fst (profile_values ''3f2a9c1e-7b41'' 
          \<lparr>jwt_sub = Some ''3f2a9c1e-7b41'', jwt_role = None, jwt_email = Some ''al@one.example'',
           jwt_user_metadata = Some [''full_name'' \<mapsto> ''Ann Lee'']\<rparr>)
   \<and> fst (profile_values ''3f2a9c1e-7b41'' 
          \<lparr>jwt_sub = Some ''3f2a9c1e-7b41'', jwt_role = None, jwt_email = Some ''al@one.example'',
           jwt_user_metadata = Some [''user_name'' \<mapsto> ''Bob'']\<rparr>)
       \<noteq> fst (profile_values ''3f2a9c1e-7b41'' 
          \<lparr>jwt_sub = Some ''3f2a9c1e-7b41'', jwt_role = None, jwt_email = Some ''al@one.example'',
           jwt_user_metadata = Some [''full_name'' \<mapsto> ''Ann Lee'']\<rparr>)"
proof -
  let ?u1 = "''3f2a9c1e-7b41''"
  let ?u2 = "''3f2a9c88-0e55''"
  let ?u3 = "''77aa9c1e-7b41''"
  let ?p1 = "\<lparr>jwt_sub = Some ''3f2a9c1e-7b41'', jwt_role = None, jwt_email = Some ''al@one.example'',
           jwt_user_metadata = Some [''full_name'' \<mapsto> ''Ann Lee'']\<rparr>"
  let ?p2 = "\<lparr>jwt_sub = Some ''3f2a9c88-0e55'', jwt_role = None, jwt_email = Some ''ann.lee@two.example'',
           jwt_user_metadata = None\<rparr>"
  let ?p3 = "\<lparr>jwt_sub = Some ''77aa9c1e-7b41'', jwt_role = None, jwt_email = Some ''al@one.example'',
           jwt_user_metadata = Some [''full_name'' \<mapsto> ''Ann Lee'']\<rparr>"
  let ?p4 = "\<lparr>jwt_sub = Some ''3f2a9c1e-7b41'', jwt_role = None, jwt_email = Some ''al@one.example'',
           jwt_user_metadata = Some [''user_name'' \<mapsto> ''Bob'']\<rparr>"
  have s1: "handle_source ?p1 = ''Ann Lee''"
    by (simp add: handle_source_def py_or_def truthy_def)
  have s2: "handle_source ?p2 = ''ann.lee''"
    by (simp add: handle_source_def py_or_def truthy_def email_local_part_def)
  have s3: "handle_source ?p3 = ''Ann Lee''"
    by (simp add: handle_source_def py_or_def truthy_def)
  have s4: "handle_source ?p4 = ''Bob''"
    by (simp add: handle_source_def py_or_def truthy_def)
  have g1: "slugify_handle ''Ann Lee'' = ''ann-lee''" by code_simp
  have g2: "slugify_handle ''ann.lee'' = ''ann-lee''" by code_simp
  have g4: "slugify_handle ''Bob'' = ''bob''" by code_simp
  have a: "fst (profile_values ?u1 ?p1) = ''ann-lee-3f2a9c''"
    using generated_handle_suffix [of ?u1 ?p1] by (simp add: s1 g1)
  have e: "slugify_handle (handle_source ?p1) = slugify_handle (handle_source ?p2)
           \<and> take 6 ?u1 = take 6 ?u2"
    by (simp add: s1 s2 g1 g2)
  have "fst (profile_values ?u1 ?p1) = fst (profile_values ?u2 ?p2)"
    using generated_handle_suffix [of ?u1 ?p1 ?u2 ?p2] e by blast
  with a have b: "fst (profile_values ?u2 ?p2) = ''ann-lee-3f2a9c''"
    by simp
  have l: "6 \<le> length ?u3 \<and> 6 \<le> length ?u1 \<and> take 6 ?u3 \<noteq> take 6 ?u1"
    by simp
  have c: "fst (profile_values ?u3 ?p3) \<noteq> fst (profile_values ?u1 ?p1)"
    using generated_handle_suffix [of ?u3 ?p3 ?u1 ?p1] l by blast
  have l1: "6 \<le> length ?u1" by simp
  have n: "slugify_handle (handle_source ?p4) \<noteq> slugify_handle (handle_source ?p1)"
    by (simp add: s1 s4 g1 g4)
  have d: "fst (profile_values ?u1 ?p4) \<noteq> fst (profile_values ?u1 ?p1)"
    using generated_handle_suffix [of ?u1 ?p4 ?u1 ?p1] l1 n by blast
  show ?thesis using a b c d by (simp only: simp_thms)
qed

text \<open>
  Claim C9 as the specification states it fails: two distinct identities whose ids share
  their first six characters and whose e-mail addresses have the same local part are
  given the same handle.
\<close>

theorem generated_handle_counterexample:
  "''3f2a9c1e-7b41-4c1a-9d2e-000000000001'' \<noteq> ''3f2a9c88-0e55-4f6b-8a10-000000000002''
   \<and> fst (profile_values ''3f2a9c1e-7b41-4c1a-9d2e-000000000001''
        \<lparr>jwt_sub = Some ''3f2a9c1e-7b41-4c1a-9d2e-000000000001'', jwt_role = None,
         jwt_email = Some ''sam@one.example'', jwt_user_metadata = None\<rparr>)
     = ''sam-3f2a9c''
   \<and> fst (profile_values ''3f2a9c88-0e55-4f6b-8a10-000000000002''
        \<lparr>jwt_sub = Some ''3f2a9c88-0e55-4f6b-8a10-000000000002'', jwt_role = None,
         jwt_email = Some ''sam@two.example'', jwt_user_metadata = None\<rparr>)
     = ''sam-3f2a9c''"
  by code_simp

section \<open>Session context and pooled connections\<close>








text \<open>
  The flag matters: the same setting made with \<open>is_local = false\<close> would still be read
  on the connection after its release.
\<close>

lemma session_scoped_setting_outlives_release:
  "current_setting
     (release (execute \<lparr>session_settings = Map.empty, transaction_settings = None\<rparr>
                 (SetConfig ''request.jwt.claim.sub'' ''3f2a9c1e'' False)))
     ''request.jwt.claim.sub'' = Some ''3f2a9c1e''"
  by (simp add: release_def execute_def current_setting_def)

section \<open>Share tokens\<close>

lemma find_None_all: "(find P xs = None) = (\<forall>x \<in> set xs. \<not> P x)"
  by (induction xs) auto

lemma find_Some_member: "find P xs = Some x \<Longrightarrow> x \<in> set xs \<and> P x"
  by (induction xs) (auto split: if_splits)






section \<open>Share links\<close>

lemma find_Some_ex: "(\<exists>x. find P xs = Some x) = (\<exists>x \<in> set xs. P x)"
  by (induction xs) auto

text \<open>
  Claim C4. The share lookup finds a playlist exactly when some playlist stores the
  digest of the presented token and has privacy "link_only"; the playlist returned is
  such a one; otherwise the answer is the 404 "Share link not found.". After a
  successful rotation to a token with another digest, a lookup with the previous token
  (whose digest no other playlist stored) gets that 404.
\<close>

theorem share_lookup:
  "((\<exists>found. get_playlist_share H token d = Inr found)
      = (\<exists>r \<in> set (playlists d). share_token_hash r = Some (H token) \<and> pl_privacy r = ''link_only''))
   \<and> (get_playlist_share H token d = Inr found \<longrightarrow>
        found \<in> set (playlists d) \<and> share_token_hash found = Some (H token)
        \<and> pl_privacy found = ''link_only'')
   \<and> ((\<forall>r \<in> set (playlists d). \<not> (share_token_hash r = Some (H token) \<and> pl_privacy r = ''link_only''))
        \<longrightarrow> get_playlist_share H token d = Inl (HTTPException 404 ''Share link not found.''))
   \<and> (fst (rotate_share_token H new_token pid d) = Inr new_token
        \<and> H new_token \<noteq> H old_token
        \<and> (\<forall>r \<in> set (playlists d). share_token_hash r = Some (H old_token) \<longrightarrow> pl_id r = pid)
        \<longrightarrow> get_playlist_share H old_token (snd (rotate_share_token H new_token pid d))
            = Inl (HTTPException 404 ''Share link not found.''))"
proof -
  let ?P = "\<lambda>r. share_token_hash r = Some (H token) \<and> pl_privacy r = ''link_only''"
  have "(\<exists>found. get_playlist_share H token d = Inr found)
          = (\<exists>found. find ?P (playlists d) = Some found)"
    by (auto simp: get_playlist_share_def Let_def split: option.splits)
  then have a: "(\<exists>found. get_playlist_share H token d = Inr found)
          = (\<exists>r \<in> set (playlists d). ?P r)"
    by (simp only: find_Some_ex)
  have b: "get_playlist_share H token d = Inr found \<longrightarrow>
        found \<in> set (playlists d) \<and> ?P found"
    by (auto simp: get_playlist_share_def Let_def split: option.splits dest: find_Some_member)
  have c: "(\<forall>r \<in> set (playlists d). \<not> ?P r)
        \<longrightarrow> get_playlist_share H token d = Inl (HTTPException 404 ''Share link not found.'')"
    by (auto simp: get_playlist_share_def Let_def split: option.splits dest: find_Some_member)
  have e: "get_playlist_share H old_token (snd (rotate_share_token H new_token pid d))
            = Inl (HTTPException 404 ''Share link not found.'')"
    if "H new_token \<noteq> H old_token"
       "\<forall>r \<in> set (playlists d). share_token_hash r = Some (H old_token) \<longrightarrow> pl_id r = pid"
  proof -
    have "find (\<lambda>r. share_token_hash r = Some (H old_token) \<and> pl_privacy r = ''link_only'')
            (playlists (snd (rotate_share_token H new_token pid d))) = None"
      using that by (auto simp: rotate_share_token_def Let_def find_None_all)
    then show ?thesis by (simp add: get_playlist_share_def Let_def)
  qed
  show ?thesis using a b c e by blast
qed

theorem share_lookup_witness:
  "get_playlist_share (\<lambda>s. ''sha256:'' @ s) ''old-token''
     \<lparr>profiles = Map.empty, sounds = [], tags = [], sound_tags = [],
      playlists = [\<lparr>pl_id = ''p1'', pl_owner_id = ''3f2a9c1e'', pl_name = ''mix'',
                    pl_description = None, pl_privacy = ''link_only'',
                    share_token_hash = Some ''sha256:old-token'', pl_created_at = None\<rparr>,
                   \<lparr>pl_id = ''p2'', pl_owner_id = ''3f2a9c1e'', pl_name = ''own'',
                    pl_description = None, pl_privacy = ''private'',
                    share_token_hash = Some ''sha256:other'', pl_created_at = None\<rparr>],
      playlist_sounds = []\<rparr>
   = Inr \<lparr>pl_id = ''p1'', pl_owner_id = ''3f2a9c1e'', pl_name = ''mix'',
          pl_description = None, pl_privacy = ''link_only'',
          share_token_hash = Some ''sha256:old-token'', pl_created_at = None\<rparr>
   \<and> get_playlist_share (\<lambda>s. ''sha256:'' @ s) ''other''
     \<lparr>profiles = Map.empty, sounds = [], tags = [], sound_tags = [],
      playlists = [\<lparr>pl_id = ''p1'', pl_owner_id = ''3f2a9c1e'', pl_name = ''mix'',
                    pl_description = None, pl_privacy = ''link_only'',
                    share_token_hash = Some ''sha256:old-token'', pl_created_at = None\<rparr>,
                   \<lparr>pl_id = ''p2'', pl_owner_id = ''3f2a9c1e'', pl_name = ''own'',
                    pl_description = None, pl_privacy = ''private'',
                    share_token_hash = Some ''sha256:other'', pl_created_at = None\<rparr>],
      playlist_sounds = []\<rparr>
   = Inl (HTTPException 404 ''Share link not found.'')
   \<and> get_playlist_share (\<lambda>s. ''sha256:'' @ s) ''old-token''
     (snd (rotate_share_token (\<lambda>s. ''sha256:'' @ s) ''new-token'' ''p1''
     \<lparr>profiles = Map.empty, sounds = [], tags = [], sound_tags = [],
      playlists = [\<lparr>pl_id = ''p1'', pl_owner_id = ''3f2a9c1e'', pl_name = ''mix'',
                    pl_description = None, pl_privacy = ''link_only'',
                    share_token_hash = Some ''sha256:old-token'', pl_created_at = None\<rparr>,
                   \<lparr>pl_id = ''p2'', pl_owner_id = ''3f2a9c1e'', pl_name = ''own'',
                    pl_description = None, pl_privacy = ''private'',
                    share_token_hash = Some ''sha256:other'', pl_created_at = None\<rparr>],
      playlist_sounds = []\<rparr>))
   = Inl (HTTPException 404 ''Share link not found.'')"
proof -
  let ?H = "\<lambda>s. ''sha256:'' @ s"
  let ?p1 = "\<lparr>pl_id = ''p1'', pl_owner_id = ''3f2a9c1e'', pl_name = ''mix'',
                    pl_description = None, pl_privacy = ''link_only'',
                    share_token_hash = Some ''sha256:old-token'', pl_created_at = None\<rparr>"
  let ?p2 = "\<lparr>pl_id = ''p2'', pl_owner_id = ''3f2a9c1e'', pl_name = ''own'',
                    pl_description = None, pl_privacy = ''private'',
                    share_token_hash = Some ''sha256:other'', pl_created_at = None\<rparr>"
  let ?d = "\<lparr>profiles = Map.empty, sounds = [], tags = [], sound_tags = [],
      playlists = [?p1, ?p2], playlist_sounds = []\<rparr>"
  have ok: "get_playlist_share ?H ''old-token'' ?d = Inr ?p1"
    by (simp add: get_playlist_share_def)
  have rot: "fst (rotate_share_token ?H ''new-token'' ''p1'' ?d) = Inr ''new-token''"
    by (simp add: rotate_share_token_def)
  have fresh: "?H ''new-token'' \<noteq> ?H ''old-token''" by simp
  have uniq: "\<forall>r \<in> set (playlists ?d). share_token_hash r = Some (?H ''old-token'') \<longrightarrow> pl_id r = ''p1''"
    by simp
  have none: "\<forall>r \<in> set (playlists ?d). \<not> (share_token_hash r = Some (?H ''other'') \<and> pl_privacy r = ''link_only'')"
    by simp
  have miss: "get_playlist_share ?H ''other'' ?d = Inl (HTTPException 404 ''Share link not found.'')"
    using share_lookup [of ?H "''other''" ?d] none by blast
  have gone: "get_playlist_share ?H ''old-token'' (snd (rotate_share_token ?H ''new-token'' ''p1'' ?d))
      = Inl (HTTPException 404 ''Share link not found.'')"
    using share_lookup [of ?H "''old-token''" ?d _ "''new-token''" "''p1''" "''old-token''"]
      rot fresh uniq by blast
  show ?thesis
    by (simp only: ok miss gone)
qed

section \<open>Reordering\<close>

lemma reorder_rowwise:
  "foldl (\<lambda>tbl (index, sound_id). update_position (int index) pid sound_id tbl) tbl ps
     = map (\<lambda>r. foldl (\<lambda>r (i, s). if ps_playlist_id r = pid \<and> ps_sound_id r = s
               then r\<lparr>position := Some (int i)\<rparr> else r) r ps) tbl"
proof (induction ps arbitrary: tbl)
  case Nil
  then show ?case by simp
next
  case (Cons p ps)
  obtain i s where p: "p = (i, s)" by (cases p)
  show ?case
    unfolding p foldl_Cons prod.case Cons.IH
    by (simp add: update_position_def comp_def)
qed

lemma snd_set_enumerate: "snd ` set (enumerate k xs) = set xs"
  by (metis list.set_map map_snd_enumerate)

lemma row_fold_unlisted:
  "ps_playlist_id r \<noteq> pid \<or> ps_sound_id r \<notin> snd ` set ps \<Longrightarrow>
   foldl (\<lambda>r (i, s). if ps_playlist_id r = pid \<and> ps_sound_id r = s
               then r\<lparr>position := Some (int i)\<rparr> else r) r ps = r"
  by (induction ps arbitrary: r) (auto split: prod.splits)

lemma row_fold_listed:
  "ps_playlist_id r = pid \<Longrightarrow> i < length ids \<Longrightarrow> ids ! i = ps_sound_id r \<Longrightarrow>
   ps_sound_id r \<notin> set (drop (Suc i) ids) \<Longrightarrow>
   foldl (\<lambda>r (i, s). if ps_playlist_id r = pid \<and> ps_sound_id r = s
               then r\<lparr>position := Some (int i)\<rparr> else r) r (enumerate k ids)
     = r\<lparr>position := Some (int (k + i))\<rparr>"
proof (induction ids arbitrary: r k i)
  case Nil
  then show ?case by simp
next
  case (Cons x xs)
  show ?case
  proof (cases i)
    case 0
    have "ps_sound_id (r\<lparr>position := Some (int k)\<rparr>) \<notin> snd ` set (enumerate (Suc k) xs)"
      using Cons.prems 0 by (simp add: snd_set_enumerate)
    then show ?thesis
      using Cons.prems 0
        row_fold_unlisted [of "r\<lparr>position := Some (int k)\<rparr>" pid "enumerate (Suc k) xs"]
      by simp
  next
    case (Suc j)
    let ?r = "if ps_sound_id r = x then r\<lparr>position := Some (int k)\<rparr> else r"
    have "foldl (\<lambda>r (i, s). if ps_playlist_id r = pid \<and> ps_sound_id r = s
               then r\<lparr>position := Some (int i)\<rparr> else r) ?r (enumerate (Suc k) xs)
          = ?r\<lparr>position := Some (int (Suc k + j))\<rparr>"
      using Cons.prems Suc by (intro Cons.IH) auto
    then show ?thesis using Cons.prems Suc by (auto split: if_splits)
  qed
qed

text \<open>
  Claim C6, as the code has it. Reordering keeps the rows of \<open>playlist_sounds\<close> and
  changes positions only: a member of the playlist that is listed gets the 1-based
  index at which the list names it (the last one, should the list name it twice);
  members that the list omits, and the rows of other playlists, keep their position;
  listed ids that are no members change nothing.
\<close>

theorem reorder_positions:
  assumes "n < length (playlist_sounds d)"
  shows "length (playlist_sounds (reorder_playlist_sounds pid ids d)) = length (playlist_sounds d)
   \<and> (ps_playlist_id (playlist_sounds d ! n) = pid \<and> i < length ids
        \<and> ids ! i = ps_sound_id (playlist_sounds d ! n)
        \<and> ps_sound_id (playlist_sounds d ! n) \<notin> set (drop (Suc i) ids)
       \<longrightarrow> playlist_sounds (reorder_playlist_sounds pid ids d) ! n
            = (playlist_sounds d ! n)\<lparr>position := Some (int i + 1)\<rparr>)
   \<and> (ps_playlist_id (playlist_sounds d ! n) \<noteq> pid
        \<or> ps_sound_id (playlist_sounds d ! n) \<notin> set ids
       \<longrightarrow> playlist_sounds (reorder_playlist_sounds pid ids d) ! n = playlist_sounds d ! n)"
proof -
  let ?r = "playlist_sounds d ! n"
  show ?thesis
    using assms row_fold_listed [of ?r pid i ids 1] row_fold_unlisted [of ?r pid "enumerate 1 ids"]
    by (simp add: reorder_playlist_sounds_def reorder_rowwise snd_set_enumerate)
qed


theorem reorder_positions_witness:
  "playlist_sounds
     (reorder_playlist_sounds ''p1'' [''C'', ''A'', ''Z'']
        \<lparr>profiles = Map.empty, sounds = [], tags = [], sound_tags = [], playlists = [],
         playlist_sounds =
           [\<lparr>ps_playlist_id = ''p1'', ps_sound_id = ''A'', position = Some 1\<rparr>,
            \<lparr>ps_playlist_id = ''p1'', ps_sound_id = ''B'', position = Some 2\<rparr>,
            \<lparr>ps_playlist_id = ''p1'', ps_sound_id = ''C'', position = Some 3\<rparr>,
            \<lparr>ps_playlist_id = ''p2'', ps_sound_id = ''C'', position = Some 7\<rparr>]\<rparr>)
   = [\<lparr>ps_playlist_id = ''p1'', ps_sound_id = ''A'', position = Some 2\<rparr>,
      \<lparr>ps_playlist_id = ''p1'', ps_sound_id = ''B'', position = Some 2\<rparr>,
      \<lparr>ps_playlist_id = ''p1'', ps_sound_id = ''C'', position = Some 1\<rparr>,
      \<lparr>ps_playlist_id = ''p2'', ps_sound_id = ''C'', position = Some 7\<rparr>]"
proof -
  let ?d = "\<lparr>profiles = Map.empty, sounds = [], tags = [], sound_tags = [], playlists = [],
         playlist_sounds =
           [\<lparr>ps_playlist_id = ''p1'', ps_sound_id = ''A'', position = Some 1\<rparr>,
            \<lparr>ps_playlist_id = ''p1'', ps_sound_id = ''B'', position = Some 2\<rparr>,
            \<lparr>ps_playlist_id = ''p1'', ps_sound_id = ''C'', position = Some 3\<rparr>,
            \<lparr>ps_playlist_id = ''p2'', ps_sound_id = ''C'', position = Some 7\<rparr>]\<rparr>"
  let ?ids = "[''C'', ''A'', ''Z'']"
  let ?res = "playlist_sounds (reorder_playlist_sounds ''p1'' ?ids ?d)"
  have len: "length ?res = 4"
    using reorder_positions [of 0 ?d "''p1''" ?ids 0] by simp
  have r0: "?res ! 0 = \<lparr>ps_playlist_id = ''p1'', ps_sound_id = ''A'', position = Some 2\<rparr>"
    using reorder_positions [of 0 ?d "''p1''" ?ids 1] by simp
  have r1: "?res ! 1 = \<lparr>ps_playlist_id = ''p1'', ps_sound_id = ''B'', position = Some 2\<rparr>"
    using reorder_positions [of 1 ?d "''p1''" ?ids 0] by simp
  have r2: "?res ! 2 = \<lparr>ps_playlist_id = ''p1'', ps_sound_id = ''C'', position = Some 1\<rparr>"
    using reorder_positions [of 2 ?d "''p1''" ?ids 0] by simp
  have r3: "?res ! 3 = \<lparr>ps_playlist_id = ''p2'', ps_sound_id = ''C'', position = Some 7\<rparr>"
    using reorder_positions [of 3 ?d "''p1''" ?ids 0] by simp
  show ?thesis
    using len r0 r1 r2 r3 by (simp add: list_eq_iff_nth_eq less_Suc_eq numeral_nat)
qed

text \<open>
  Claim C6 as the specification states it fails at its own example: from A:1, B:2, C:3
  the request [C, A] gives C:1 and A:2 and leaves B at 2, not at 3.
\<close>

theorem reorder_example_counterexample:
  "playlist_sounds
     (reorder_playlist_sounds ''p1'' [''C'', ''A'']
        \<lparr>profiles = Map.empty, sounds = [], tags = [], sound_tags = [], playlists = [],
         playlist_sounds =
           [\<lparr>ps_playlist_id = ''p1'', ps_sound_id = ''A'', position = Some 1\<rparr>,
            \<lparr>ps_playlist_id = ''p1'', ps_sound_id = ''B'', position = Some 2\<rparr>,
            \<lparr>ps_playlist_id = ''p1'', ps_sound_id = ''C'', position = Some 3\<rparr>]\<rparr>)
   = [\<lparr>ps_playlist_id = ''p1'', ps_sound_id = ''A'', position = Some 2\<rparr>,
      \<lparr>ps_playlist_id = ''p1'', ps_sound_id = ''B'', position = Some 2\<rparr>,
      \<lparr>ps_playlist_id = ''p1'', ps_sound_id = ''C'', position = Some 1\<rparr>]"
  by (simp add: reorder_playlist_sounds_def update_position_def enumerate_eq_zip)

section \<open>Tag attachment\<close>

lemma strip_chars_empty: "(strip_chars p s = []) = (\<forall>c \<in> set s. p c)"
proof -
  have key: "(dropWhile p (rev (dropWhile p s)) = []) = (dropWhile p s = [])"
  proof (cases "dropWhile p s")
    case Nil
    then show ?thesis by (simp del: dropWhile_eq_Nil_conv)
  next
    case (Cons a as)
    then have "\<not> p a" by (metis hd_dropWhile list.sel(1) list.distinct(1))
    then show ?thesis using Cons by (simp add: dropWhile_append3)
  qed
  have "(strip_chars p s = []) = (dropWhile p s = [])"
    using key by (simp add: strip_chars_def)
  also have "\<dots> = (\<forall>c \<in> set s. p c)"
    by (rule dropWhile_eq_Nil_conv)
  finally show ?thesis .
qed

lemma set_dropWhile_keep: "{c \<in> set s. \<not> p c} \<subseteq> set (dropWhile p s)"
  by (induction s) auto

lemma set_strip_chars:
  "{c \<in> set s. \<not> p c} \<subseteq> set (strip_chars p s) \<and> set (strip_chars p s) \<subseteq> set s"
proof -
  have "{c \<in> set s. \<not> p c} \<subseteq> {c \<in> set (dropWhile p s). \<not> p c}"
    using set_dropWhile_keep [of s p] by auto
  also have "\<dots> = {c \<in> set (rev (dropWhile p s)). \<not> p c}" by simp
  also have "\<dots> \<subseteq> set (dropWhile p (rev (dropWhile p s)))"
    by (rule set_dropWhile_keep)
  finally have a: "{c \<in> set s. \<not> p c} \<subseteq> set (strip_chars p s)"
    by (simp add: strip_chars_def)
  have "set (strip_chars p s) \<subseteq> set s"
    by (auto simp: strip_chars_def dest!: set_dropWhileD)
  with a show ?thesis by blast
qed

lemma dropWhile_not_kept:
  "(\<forall>x \<in> set (dropWhile (\<lambda>d. \<not> keep d) cs). \<not> keep x) = (\<forall>x \<in> set cs. \<not> keep x)"
proof
  assume l: "\<forall>x \<in> set (dropWhile (\<lambda>d. \<not> keep d) cs). \<not> keep x"
  show "\<forall>x \<in> set cs. \<not> keep x"
  proof
    fix x assume "x \<in> set cs"
    show "\<not> keep x"
    proof
      assume "keep x"
      with \<open>x \<in> set cs\<close> have "x \<in> set (dropWhile (\<lambda>d. \<not> keep d) cs)"
        using set_dropWhile_keep [of cs "\<lambda>d. \<not> keep d"] by blast
      with l \<open>keep x\<close> show False by blast
    qed
  qed
next
  assume "\<forall>x \<in> set cs. \<not> keep x"
  then show "\<forall>x \<in> set (dropWhile (\<lambda>d. \<not> keep d) cs). \<not> keep x"
    by (blast dest: set_dropWhileD)
qed

lemma sub_runs_kept:
  "\<not> keep (CHR ''-'') \<Longrightarrow>
   (\<forall>c \<in> set (sub_runs keep s). c = CHR ''-'') = (\<forall>c \<in> set s. \<not> keep c)"
proof (induction keep s rule: sub_runs.induct)
  case (1 keep)
  then show ?case by simp
next
  case (2 keep c cs)
  show ?case
  proof (cases "keep c")
    case True
    then have "c \<noteq> CHR ''-''" using "2.prems" by blast
    then show ?thesis using True by simp
  next
    case False
    have ih: "(\<forall>x \<in> set (sub_runs keep (dropWhile (\<lambda>d. \<not> keep d) cs)). x = CHR ''-'')
               = (\<forall>x \<in> set (dropWhile (\<lambda>d. \<not> keep d) cs). \<not> keep x)"
      using "2.IH"(2) [OF False "2.prems"] .
    have "(\<forall>x \<in> set (sub_runs keep (c # cs)). x = CHR ''-'')
            = (\<forall>x \<in> set (sub_runs keep (dropWhile (\<lambda>d. \<not> keep d) cs)). x = CHR ''-'')"
      using False by simp
    also have "\<dots> = (\<forall>x \<in> set cs. \<not> keep x)"
      unfolding ih by (rule dropWhile_not_kept)
    also have "\<dots> = (\<forall>x \<in> set (c # cs). \<not> keep x)"
      using False by simp
    finally show ?thesis .
  qed
qed

lemma lower_char_alnum: "is_lower_alnum (lower_char c) = is_ascii_alnum c"
proof -
  define n where "n = (of_char c :: nat)"
  have lt: "n < 256" unfolding n_def by (rule nat_of_char_less_256)
  show ?thesis
  proof (cases "(65 \<le> n \<and> n \<le> 90) \<or> (192 \<le> n \<and> n \<le> 222 \<and> n \<noteq> 215)")
    case True
    have l: "lower_char c = char_of (n + 32)"
      unfolding lower_char_def Let_def n_def [symmetric]
      by (simp only: True if_True)
    have "n + 32 < 256" using True by arith
    then have m: "(of_char (char_of (n + 32)) :: nat) = n + 32"
      by simp
    show ?thesis
      unfolding l is_lower_alnum_def is_ascii_alnum_def Let_def m n_def [symmetric]
      using True by arith
  next
    case False
    have l: "lower_char c = c"
      unfolding lower_char_def Let_def n_def [symmetric]
      by (simp only: False if_False)
    show ?thesis
      unfolding l is_lower_alnum_def is_ascii_alnum_def Let_def n_def [symmetric]
      using False by arith
  qed
qed

lemma alnum_not_space: "is_ascii_alnum c \<Longrightarrow> \<not> isspace c"
  by (auto simp: is_ascii_alnum_def isspace_def Let_def)

text \<open>
  On strings of code points below 256, the slug of a tag is empty exactly when the tag
  has no ASCII letter and no digit.
\<close>

lemma slugify_empty_iff: "(slugify t = []) = (\<forall>c \<in> set t. \<not> is_ascii_alnum c)"
proof -
  have h: "\<not> is_lower_alnum (CHR ''-'')" by (simp add: is_lower_alnum_def)
  have "(slugify t = []) = (\<forall>c \<in> set (sub_runs is_lower_alnum (lower (strip t))). c = CHR ''-'')"
    by (simp add: slugify_def strip_hyphen_def strip_chars_empty)
  also have "\<dots> = (\<forall>c \<in> set (lower (strip t)). \<not> is_lower_alnum c)"
    using sub_runs_kept [of is_lower_alnum "lower (strip t)"] h by blast
  also have "\<dots> = (\<forall>c \<in> set (strip t). \<not> is_ascii_alnum c)"
    by (simp add: lower_def lower_char_alnum)
  also have "\<dots> = (\<forall>c \<in> set t. \<not> is_ascii_alnum c)"
    using set_strip_chars [of t isspace] alnum_not_space
    unfolding strip_def by blast
  finally show ?thesis .
qed

lemma ensure_tags_loop_filter:
  "ensure_tags_loop gen ids tbl ts
     = ensure_tags_loop gen ids tbl (filter (\<lambda>t. slugify t \<noteq> []) ts)"
  by (induction ts arbitrary: ids tbl) (auto split: prod.splits)

lemma ensure_tags_filter:
  "ensure_tags gen tbl ts = ensure_tags gen tbl (filter (\<lambda>t. slugify t \<noteq> []) ts)"
  unfolding ensure_tags_def by (rule ensure_tags_loop_filter)

text \<open>
  Claim C10. A raw tag whose slug is empty is skipped by \<open>ensure_tags\<close>: the loop goes
  on with the same tag ids and the same \<open>tags\<close> table, so that the outcome for a list of
  tags is the outcome for the list without them, in \<open>ensure_tags\<close> and in the database
  \<open>attach_tags\<close> leaves; a tag list made of such a tag alone changes neither \<open>tags\<close> nor
  \<open>sound_tags\<close>. Neither function has an error outcome.
\<close>

theorem empty_slug_tags_skipped:
  "ensure_tags gen tbl ts = ensure_tags gen tbl (filter (\<lambda>t. slugify t \<noteq> []) ts)
   \<and> snd (attach_tags gen d sid ts)
       = snd (attach_tags gen d sid (filter (\<lambda>t. slugify t \<noteq> []) ts))
   \<and> (slugify t = [] \<longrightarrow>
        ensure_tags_loop gen ids tbl (t # ts) = ensure_tags_loop gen ids tbl ts
        \<and> ensure_tags gen tbl [t] = ([], tbl)
        \<and> attach_tags gen d sid [t] = ([], d))"
proof -
  have a: "ensure_tags gen tbl ts = ensure_tags gen tbl (filter (\<lambda>t. slugify t \<noteq> []) ts)"
    by (rule ensure_tags_filter)
  have b: "snd (attach_tags gen d sid ts)
       = snd (attach_tags gen d sid (filter (\<lambda>t. slugify t \<noteq> []) ts))"
    unfolding attach_tags_def ensure_tags_filter [of gen "tags d" ts, symmetric]
    by (simp split: prod.splits)
  have c: "slugify t = [] \<longrightarrow>
        ensure_tags_loop gen ids tbl (t # ts) = ensure_tags_loop gen ids tbl ts
        \<and> ensure_tags gen tbl [t] = ([], tbl)
        \<and> attach_tags gen d sid [t] = ([], d)"
    by (simp add: ensure_tags_def attach_tags_def)
  show ?thesis using a b c by blast
qed

theorem empty_slug_tags_skipped_witness:
  "slugify ''?!'' = []
   \<and> ensure_tags (\<lambda>tbl. ''t1'') [\<lparr>tag_id = ''t0'', slug = ''rock'', display = ''Rock''\<rparr>] [''?!'']
       = ([], [\<lparr>tag_id = ''t0'', slug = ''rock'', display = ''Rock''\<rparr>])
   \<and> attach_tags (\<lambda>tbl. ''t1'')
        \<lparr>profiles = Map.empty, sounds = [], tags = [\<lparr>tag_id = ''t0'', slug = ''rock'', display = ''Rock''\<rparr>],
         sound_tags = [], playlists = [], playlist_sounds = []\<rparr> ''s1'' [''?!'']
       = ([], \<lparr>profiles = Map.empty, sounds = [], tags = [\<lparr>tag_id = ''t0'', slug = ''rock'', display = ''Rock''\<rparr>],
         sound_tags = [], playlists = [], playlist_sounds = []\<rparr>)"
proof -
  have e: "slugify ''?!'' = []" by code_simp
  from empty_slug_tags_skipped [of "\<lambda>tbl. ''t1''"
         "[\<lparr>tag_id = ''t0'', slug = ''rock'', display = ''Rock''\<rparr>]" "[]"
         "\<lparr>profiles = Map.empty, sounds = [], tags = [\<lparr>tag_id = ''t0'', slug = ''rock'', display = ''Rock''\<rparr>],
         sound_tags = [], playlists = [], playlist_sounds = []\<rparr>" "''s1''" "''?!''" "[]"] e
  show ?thesis by blast
qed

section \<open>Sound creation\<close>

lemma sounds_attach_tags: "sounds (snd (attach_tags gen d sid ts)) = sounds d"
  by (simp add: attach_tags_def split: prod.splits)

text \<open>
  Claim C8. In \<open>create_sound\<close> the upload comes first. When it raises a
  \<open>StorageException\<close> the request fails with a 502 and the database is as it was; the
  detail is the exception's message when its first argument is a dictionary with a
  non-empty message, and "Storage upload failed." otherwise. Conversely, whenever
  \<open>create_sound\<close> has changed the database, the upload had succeeded.
\<close>

theorem create_sound_upload_first:
  "(truthy (sound_display_name name file)
     \<and> upload_bytes client st
          (sound_storage_path u sid file (the (sound_display_name name file)))
          (file_data file) (content_type file) = (Some (StorageException args), st')
     \<longrightarrow> create_sound client sign gen sid file name description raw_tags privacy u st d
          = (Inl (HTTPException 502 (upload_failure_detail args)), st', d))
   \<and> (snd (snd (create_sound client sign gen sid file name description raw_tags privacy u st d)) \<noteq> d
     \<longrightarrow> fst (upload_bytes client st
               (sound_storage_path u sid file (the (sound_display_name name file)))
               (file_data file) (content_type file)) = None)
   \<and> (truthy (dict ''message'') \<longrightarrow>
        upload_failure_detail (DictArg dict # rest) = the (dict ''message''))
   \<and> (\<not> truthy (dict ''message'') \<longrightarrow>
        upload_failure_detail (DictArg dict # rest) = ''Storage upload failed.'')
   \<and> upload_failure_detail (OtherArg # rest) = ''Storage upload failed.''
   \<and> upload_failure_detail [] = ''Storage upload failed.''"
  by (auto simp: create_sound_def Let_def upload_failure_detail_def
           split: prod.splits option.splits storage_exception.splits)

theorem create_sound_upload_first_witness:
  "create_sound
     (\<lambda>st path data ct. (Some (StorageException [DictArg [''message'' \<mapsto> ''Bucket not found'']]), st))
     (\<lambda>path. ''https://signed/'' @ path) (\<lambda>tbl. ''t1'') ''s1''
     \<lparr>filename = Some ''clip one.mp3'', content_type = Some ''audio/mpeg'', file_data = ''ID3''\<rparr>
     ''  '' '''' ''rock'' ''public'' (AuthUser ''3f2a9c1e'' ''authenticated'') (0::nat)
     \<lparr>profiles = Map.empty, sounds = [], tags = [], sound_tags = [], playlists = [], playlist_sounds = []\<rparr>
   = (Inl (HTTPException 502 ''Bucket not found''), 0,
      \<lparr>profiles = Map.empty, sounds = [], tags = [], sound_tags = [], playlists = [], playlist_sounds = []\<rparr>)
   \<and> fst (upload_bytes (\<lambda>st path data ct. (None, Suc st)) (0::nat)
          (sound_storage_path (AuthUser ''3f2a9c1e'' ''authenticated'') ''s1''
             \<lparr>filename = Some ''clip one.mp3'', content_type = Some ''audio/mpeg'', file_data = ''ID3''\<rparr>
             (the (sound_display_name ''  ''
                \<lparr>filename = Some ''clip one.mp3'', content_type = Some ''audio/mpeg'', file_data = ''ID3''\<rparr>)))
          ''ID3'' (Some ''audio/mpeg'')) = None
   \<and> upload_failure_detail [DictArg [''error'' \<mapsto> ''x'']] = ''Storage upload failed.''"
proof -
  let ?fail = "\<lambda>(st::nat) (path::string) (data::string) (ct::string).
                 (Some (StorageException [DictArg [''message'' \<mapsto> ''Bucket not found'']]), st)"
  let ?ok = "\<lambda>(st::nat) (path::string) (data::string) (ct::string). (None :: storage_exception option, Suc st)"
  let ?sign = "\<lambda>path. ''https://signed/'' @ path"
  let ?gen = "\<lambda>tbl :: tag list. ''t1''"
  let ?file = "\<lparr>filename = Some ''clip one.mp3'', content_type = Some ''audio/mpeg'', file_data = ''ID3''\<rparr>"
  let ?u = "AuthUser ''3f2a9c1e'' ''authenticated''"
  let ?d = "\<lparr>profiles = Map.empty, sounds = [], tags = [], sound_tags = [], playlists = [], playlist_sounds = []\<rparr>"
  have dn: "sound_display_name ''  '' ?file = Some ''clip one.mp3''"
    by code_simp
  have t: "truthy (sound_display_name ''  '' ?file)"
    by (simp add: dn truthy_def)
  have up: "upload_bytes ?fail 0
              (sound_storage_path ?u ''s1'' ?file (the (sound_display_name ''  '' ?file)))
              (file_data ?file) (content_type ?file)
            = (Some (StorageException [DictArg [''message'' \<mapsto> ''Bucket not found'']]), 0)"
    by (simp add: upload_bytes_def)
  have m: "truthy ([''message'' \<mapsto> ''Bucket not found''] ''message'')"
    by (simp add: truthy_def)
  have nm: "\<not> truthy ([''error'' \<mapsto> ''x''] ''message'')"
    by (simp add: truthy_def)
  have ch: "sounds (snd (snd (create_sound ?ok ?sign ?gen ''s1'' ?file ''  '' '''' ''rock'' ''public'' ?u 0 ?d)))
              \<noteq> sounds ?d"
    by (simp add: create_sound_def dn truthy_def upload_bytes_def Let_def sounds_attach_tags)
  then have ne: "snd (snd (create_sound ?ok ?sign ?gen ''s1'' ?file ''  '' '''' ''rock'' ''public'' ?u 0 ?d)) \<noteq> ?d"
    by metis
  have first: "create_sound ?fail ?sign ?gen ''s1'' ?file ''  '' '''' ''rock'' ''public'' ?u 0 ?d
      = (Inl (HTTPException 502 ''Bucket not found''), 0, ?d)"
    using create_sound_upload_first
      [of "''  ''" ?file ?fail 0 ?u "''s1''" "[DictArg [''message'' \<mapsto> ''Bucket not found'']]" 0
          ?sign ?gen "''''" "''rock''" "''public''" ?d "[''message'' \<mapsto> ''Bucket not found'']" "[]"]
      t up m
    by simp
  have second: "fst (upload_bytes ?ok 0
          (sound_storage_path ?u ''s1'' ?file (the (sound_display_name ''  '' ?file)))
          ''ID3'' (Some ''audio/mpeg'')) = None"
    using create_sound_upload_first
      [of "''  ''" ?file ?ok 0 ?u "''s1''" _ _
          ?sign ?gen "''''" "''rock''" "''public''" ?d] ne
    by simp
  have third: "upload_failure_detail [DictArg [''error'' \<mapsto> ''x'']] = ''Storage upload failed.''"
    using create_sound_upload_first
      [of "''  ''" ?file ?ok 0 ?u "''s1''" _ _
          ?sign ?gen "''''" "''rock''" "''public''" ?d "[''error'' \<mapsto> ''x'']" "[]"] nm
    by blast
  show ?thesis using first second third by (simp only: simp_thms)
qed

end
